theory Spec2Isabelle
  imports Main "HOL-Library.Option_ord" "HOL-Library.AList"
begin

section \<open>Values, exceptions and HTTP outcomes\<close>

text \<open>
  The service in \<^verbatim>\<open>apps/python-api/main.py\<close> is a FastAPI application with seven
  handlers. Each handler talks to PostgreSQL, Redis or RabbitMQ through a client library.
  The embedding below keeps the handlers' control flow (the connection accessors, every
  \<^verbatim>\<open>try\<close>/\<^verbatim>\<open>except Exception\<close> block, every \<^verbatim>\<open>raise\<close>) and makes the outside world
  explicit: the persistent state is a record \<open>world\<close>, and what the client libraries and
  the clock do during one handler invocation is a record \<open>env\<close>.
\<close>

text \<open>Python values that the handlers return or read from the database.\<close>

datatype pyval =
    PNone
  | PStr string
  | PInt int
  | PDict "(string \<times> pyval) list"
  | PList "pyval list"

text \<open>
  Exceptions. \<open>HTTPException\<close> is FastAPI's exception class carrying a status code and a
  detail text; it is a subclass of Python's \<open>Exception\<close>. \<open>Error m\<close> stands for any other
  exception (a client library's error with text \<open>m\<close>). A clause \<^verbatim>\<open>except Exception\<close>
  catches both constructors.
\<close>

datatype exn = HTTPException nat string | Error string

text \<open>
  A call into a client library either returns normally (\<open>None\<close>) or raises an exception
  with some text (\<open>Some m\<close>).
\<close>

type_synonym fault = "string option"

text \<open>
  A reading of \<^verbatim>\<open>datetime.utcnow()\<close>, carrying the two renderings the handlers take
  from it: \<^verbatim>\<open>str(dt.timestamp())\<close> and \<^verbatim>\<open>dt.isoformat()\<close>.
\<close>

record datetime =
  timestamp :: string
  isoformat :: string

text \<open>The calls a handler issues on a RabbitMQ connection, in the order issued.\<close>

datatype amqp_call =
    Channel
  | QueueDeclare string bool
  | BasicPublish string string pyval nat
  | ChannelClose
  | ConnectionClose

datatype log_record = ERROR string exn

text \<open>A row of the \<open>users\<close> table as \<open>RealDictCursor\<close> delivers it: column name to value.\<close>

type_synonym row = "(string \<times> pyval) list"

text \<open>
  The state that outlives a request: the two Prometheus metrics of the process, the
  contents of the Redis database (value and expiry deadline in seconds for each key), the
  calls received by the broker, the \<open>users\<close> table and the operator log.
\<close>

record world =
  REQUEST_COUNT :: "string \<times> string \<Rightarrow> nat"
  REQUEST_DURATION :: "nat list"
  redis_db :: "string \<rightharpoonup> string \<times> int"
  broker :: "amqp_call list"
  users_table :: "row list"
  logged :: "log_record list"

text \<open>
  What the outside world does during one handler invocation: for each call site into a
  client library, whether that call raises; the Redis server's clock (seconds); and the
  successive readings of \<^verbatim>\<open>datetime.utcnow()\<close> (\<open>utcnow e k\<close> is the reading of the
  \<open>k\<close>-th call, counted from 0).
\<close>

record env =
  psycopg2_connect :: fault
  cursor_open :: fault
  cursor_execute :: fault
  cursor_fetchall :: fault
  cursor_close :: fault
  db_close :: fault
  redis_init :: fault
  redis_ping :: fault
  redis_ping_again :: fault
  redis_get :: fault
  redis_set :: fault
  redis_time :: int
  pika_connect :: fault
  mq_channel :: fault
  mq_queue_declare :: fault
  mq_basic_publish :: fault
  mq_channel_close :: fault
  mq_close :: fault
  utcnow :: "nat \<Rightarrow> datetime"

text \<open>What a handler hands back to FastAPI: a JSON body, or the metrics exposition.\<close>

datatype content =
    Json pyval
  | Exposition "string \<times> string \<Rightarrow> nat" "nat list"

text \<open>
  FastAPI turns a returned value into a 200 response, an \<open>HTTPException\<close> into a response
  with its status code, and any other escaping exception into a 500.
\<close>

fun status_code :: "exn + content \<Rightarrow> nat" where
  "status_code (Inr v) = 200"
| "status_code (Inl (HTTPException c d)) = c"
| "status_code (Inl (Error m)) = 500"

section \<open>Metrics and logging\<close>

text \<open>\<^verbatim>\<open>REQUEST_COUNT.labels(method=m, endpoint=p).inc()\<close>\<close>

definition inc :: "string \<times> string \<Rightarrow> world \<Rightarrow> world" where
  "inc l w = w\<lparr>REQUEST_COUNT := (REQUEST_COUNT w)(l := REQUEST_COUNT w l + 1)\<rparr>"

text \<open>\<^verbatim>\<open>logger.error(f"<prefix>: {e}")\<close>\<close>

definition logger_error :: "string \<Rightarrow> exn \<Rightarrow> world \<Rightarrow> world" where
  "logger_error prefix e w = w\<lparr>logged := logged w @ [ERROR prefix e]\<rparr>"

section \<open>Connection accessors\<close>

datatype pg_conn = PgConn
datatype redis_conn = RedisConn
datatype mq_conn = MqConn

definition get_db_connection :: "env \<Rightarrow> world \<Rightarrow> pg_conn option \<times> world" where
  "get_db_connection e w =
     (case psycopg2_connect e of
        None \<Rightarrow> (Some PgConn, w)
      | Some m \<Rightarrow> (None, logger_error ''Database connection error'' (Error m) w))"

definition get_redis_connection :: "env \<Rightarrow> world \<Rightarrow> redis_conn option \<times> world" where
  "get_redis_connection e w =
     (case redis_init e of
        Some m \<Rightarrow> (None, logger_error ''Redis connection error'' (Error m) w)
      | None \<Rightarrow>
          (case redis_ping e of
             Some m \<Rightarrow> (None, logger_error ''Redis connection error'' (Error m) w)
           | None \<Rightarrow> (Some RedisConn, w)))"

definition get_rabbitmq_connection :: "env \<Rightarrow> world \<Rightarrow> mq_conn option \<times> world" where
  "get_rabbitmq_connection e w =
     (case pika_connect e of
        None \<Rightarrow> (Some MqConn, w)
      | Some m \<Rightarrow> (None, logger_error ''RabbitMQ connection error'' (Error m) w))"

section \<open>The Redis commands used\<close>

text \<open>
  \<^verbatim>\<open>GET key\<close> at server time \<open>now\<close>: the stored value while its deadline lies ahead,
  nothing for a key never written or expired. The command is a lookup.
\<close>

definition GET :: "(string \<rightharpoonup> string \<times> int) \<Rightarrow> int \<Rightarrow> string \<Rightarrow> string option" where
  "GET db now key =
     (case db key of
        None \<Rightarrow> None
      | Some (v, deadline) \<Rightarrow> if now < deadline then Some v else None)"

text \<open>\<^verbatim>\<open>SET key value EX ex\<close> at server time \<open>now\<close>.\<close>

definition SET ::
  "(string \<rightharpoonup> string \<times> int) \<Rightarrow> int \<Rightarrow> string \<Rightarrow> string \<Rightarrow> int \<Rightarrow> (string \<rightharpoonup> string \<times> int)" where
  "SET db now key v ex = db(key \<mapsto> (v, now + ex))"

section \<open>Cache handlers\<close>

text \<open>The body of the \<^verbatim>\<open>try\<close> block of \<open>get_cache\<close>.\<close>

definition get_cache_try :: "string \<Rightarrow> env \<Rightarrow> world \<Rightarrow> exn + content" where
  "get_cache_try key e w =
     (case redis_get e of
        Some m \<Rightarrow> Inl (Error m)
      | None \<Rightarrow>
          (case GET (redis_db w) (redis_time e) key of
             None \<Rightarrow> Inl (HTTPException 404 ''Key not found'')
           | Some v \<Rightarrow> Inr (Json (PDict [(''key'', PStr key), (''value'', PStr v)]))))"

definition get_cache :: "string \<Rightarrow> env \<Rightarrow> world \<Rightarrow> (exn + content) \<times> world" where
  "get_cache key e w0 =
     (let w1 = inc (''GET'', ''/cache'') w0;
          (redis_conn, w2) = get_redis_connection e w1
      in case redis_conn of
           None \<Rightarrow> (Inl (HTTPException 503 ''Redis service unavailable''), w2)
         | Some r \<Rightarrow>
             (case get_cache_try key e w2 of
                Inr v \<Rightarrow> (Inr v, w2)
              | Inl ex \<Rightarrow>
                  (Inl (HTTPException 500 ''Failed to get cache value''),
                   logger_error ''Failed to get cache value'' ex w2)))"

text \<open>The body of the \<^verbatim>\<open>try\<close> block of \<open>set_cache\<close>, with the world it leaves.\<close>

definition set_cache_try ::
  "string \<Rightarrow> string \<Rightarrow> env \<Rightarrow> world \<Rightarrow> (exn + content) \<times> world" where
  "set_cache_try key v e w =
     (case redis_set e of
        Some m \<Rightarrow> (Inl (Error m), w)
      | None \<Rightarrow>
          (Inr (Json (PDict [(''key'', PStr key), (''value'', PStr v), (''status'', PStr ''set'')])),
           w\<lparr>redis_db := SET (redis_db w) (redis_time e) key v 3600\<rparr>))"

definition set_cache :: "string \<Rightarrow> string \<Rightarrow> env \<Rightarrow> world \<Rightarrow> (exn + content) \<times> world" where
  "set_cache key v e w0 =
     (let w1 = inc (''POST'', ''/cache'') w0;
          (redis_conn, w2) = get_redis_connection e w1
      in case redis_conn of
           None \<Rightarrow> (Inl (HTTPException 503 ''Redis service unavailable''), w2)
         | Some r \<Rightarrow>
             (case set_cache_try key v e w2 of
                (Inr r, w3) \<Rightarrow> (Inr r, w3)
              | (Inl ex, w3) \<Rightarrow>
                  (Inl (HTTPException 500 ''Failed to set cache value''),
                   logger_error ''Failed to set cache value'' ex w3)))"

section \<open>Root and metrics handlers\<close>

definition root :: "env \<Rightarrow> world \<Rightarrow> (exn + content) \<times> world" where
  "root e w0 =
     (let w1 = inc (''GET'', ''/'') w0
      in (Inr (Json (PDict [(''message'', PStr ''Kubernetes Homelab API''),
                            (''version'', PStr ''1.0.0'')])), w1))"

text \<open>\<^verbatim>\<open>generate_latest()\<close> renders the registry as it stands after the increment.\<close>

definition metrics :: "env \<Rightarrow> world \<Rightarrow> (exn + content) \<times> world" where
  "metrics e w0 =
     (let w1 = inc (''GET'', ''/metrics'') w0
      in (Inr (Exposition (REQUEST_COUNT w1) (REQUEST_DURATION w1)), w1))"

section \<open>Health check handler\<close>

text \<open>
  The \<open>services\<close> dictionary is an association list; \<^verbatim>\<open>services[k] = v\<close> is
  \<open>AList.update k v\<close>. Each of the three blocks of the handler is a function from the
  dictionary and the world to the dictionary and the world. A \<^verbatim>\<open>with\<close> block closes its
  cursor on the way out, also when its body raised; an exception raised by the closing
  replaces the one in flight.
\<close>

type_synonym services = "(string \<times> string) list"

definition cursor_exit :: "env \<Rightarrow> string \<Rightarrow> exn" where
  "cursor_exit e m = (case cursor_close e of Some m' \<Rightarrow> Error m' | None \<Rightarrow> Error m)"

definition postgresql_try :: "env \<Rightarrow> services \<Rightarrow> (exn + unit) \<times> services" where
  "postgresql_try e services =
     (case cursor_open e of
        Some m \<Rightarrow> (Inl (Error m), services)
      | None \<Rightarrow>
          (case cursor_execute e of
             Some m \<Rightarrow> (Inl (cursor_exit e m), services)
           | None \<Rightarrow>
               (let services1 = AList.update ''postgresql'' ''connected'' services
                in case cursor_close e of
                     Some m \<Rightarrow> (Inl (Error m), services1)
                   | None \<Rightarrow>
                       (case db_close e of
                          Some m \<Rightarrow> (Inl (Error m), services1)
                        | None \<Rightarrow> (Inr (), services1)))))"

definition check_postgresql :: "env \<Rightarrow> services \<times> world \<Rightarrow> services \<times> world" where
  "check_postgresql e sw =
     (let (services, w0) = sw;
          (db_conn, w1) = get_db_connection e w0
      in case db_conn of
           None \<Rightarrow> (services, w1)
         | Some c \<Rightarrow>
             (case postgresql_try e services of
                (Inr u, services1) \<Rightarrow> (services1, w1)
              | (Inl ex, services1) \<Rightarrow>
                  (services1, logger_error ''PostgreSQL health check failed'' ex w1)))"

definition redis_try :: "env \<Rightarrow> services \<Rightarrow> (exn + unit) \<times> services" where
  "redis_try e services =
     (case redis_ping_again e of
        Some m \<Rightarrow> (Inl (Error m), services)
      | None \<Rightarrow> (Inr (), AList.update ''redis'' ''connected'' services))"

definition check_redis :: "env \<Rightarrow> services \<times> world \<Rightarrow> services \<times> world" where
  "check_redis e sw =
     (let (services, w0) = sw;
          (redis_conn, w1) = get_redis_connection e w0
      in case redis_conn of
           None \<Rightarrow> (services, w1)
         | Some c \<Rightarrow>
             (case redis_try e services of
                (Inr u, services1) \<Rightarrow> (services1, w1)
              | (Inl ex, services1) \<Rightarrow>
                  (services1, logger_error ''Redis health check failed'' ex w1)))"

text \<open>The broker probe closes the connection it has just opened.\<close>

definition rabbitmq_try :: "env \<Rightarrow> services \<times> world \<Rightarrow> (exn + unit) \<times> services \<times> world" where
  "rabbitmq_try e sw =
     (let (services, w) = sw
      in case mq_close e of
           Some m \<Rightarrow> (Inl (Error m), services, w)
         | None \<Rightarrow>
             (Inr (), AList.update ''rabbitmq'' ''connected'' services,
              w\<lparr>broker := broker w @ [ConnectionClose]\<rparr>))"

definition check_rabbitmq :: "env \<Rightarrow> services \<times> world \<Rightarrow> services \<times> world" where
  "check_rabbitmq e sw =
     (let (services, w0) = sw;
          (rabbitmq_conn, w1) = get_rabbitmq_connection e w0
      in case rabbitmq_conn of
           None \<Rightarrow> (services, w1)
         | Some c \<Rightarrow>
             (case rabbitmq_try e (services, w1) of
                (Inr u, services1, w2) \<Rightarrow> (services1, w2)
              | (Inl ex, services1, w2) \<Rightarrow>
                  (services1, logger_error ''RabbitMQ health check failed'' ex w2)))"

definition HealthResponse ::
  "string \<Rightarrow> string \<Rightarrow> string \<Rightarrow> string \<Rightarrow> services \<Rightarrow> content" where
  "HealthResponse status msg ts version services =
     Json (PDict [(''status'', PStr status), (''message'', PStr msg),
                  (''timestamp'', PStr ts), (''version'', PStr version),
                  (''services'', PDict (map (\<lambda>(k, v). (k, PStr v)) services))])"

definition health_check :: "env \<Rightarrow> world \<Rightarrow> (exn + content) \<times> world" where
  "health_check e w0 =
     (let w1 = inc (''GET'', ''/health'') w0;
          services0 = [(''postgresql'', ''disconnected''), (''redis'', ''disconnected''),
                       (''rabbitmq'', ''disconnected'')];
          (services, w2) = check_rabbitmq e (check_redis e (check_postgresql e (services0, w1)))
      in (Inr (HealthResponse ''healthy'' ''API is running'' (isoformat (utcnow e 0))
                 ''1.0.0'' services), w2))"

section \<open>Message publish handler\<close>

record MessageRequest =
  message :: string
  priority :: string

text \<open>Building the request from the JSON body: \<open>priority\<close> defaults to \<open>normal\<close>.\<close>

definition MessageRequest_init :: "string \<Rightarrow> string option \<Rightarrow> MessageRequest" where
  "MessageRequest_init m p =
     \<lparr>message = m, priority = (case p of None \<Rightarrow> ''normal'' | Some s \<Rightarrow> s)\<rparr>"

definition MessageResponse :: "string \<Rightarrow> string \<Rightarrow> string \<Rightarrow> string \<Rightarrow> content" where
  "MessageResponse i m status ts =
     Json (PDict [(''id'', PStr i), (''message'', PStr m), (''status'', PStr status),
                  (''timestamp'', PStr ts)])"

definition amqp :: "amqp_call \<Rightarrow> world \<Rightarrow> world" where
  "amqp c w = w\<lparr>broker := broker w @ [c]\<rparr>"

text \<open>
  The body of the \<^verbatim>\<open>try\<close> block of \<open>send_message\<close>. The published body is the JSON text
  of \<open>message_body\<close>; the model keeps the dictionary.
\<close>

definition send_message_try ::
  "MessageRequest \<Rightarrow> env \<Rightarrow> world \<Rightarrow> (exn + content) \<times> world" where
  "send_message_try message_request e w0 =
     (case mq_channel e of
        Some m \<Rightarrow> (Inl (Error m), w0)
      | None \<Rightarrow>
     (let w1 = amqp Channel w0;
          queue_name = ''messages_'' @ priority message_request
      in case mq_queue_declare e of
           Some m \<Rightarrow> (Inl (Error m), w1)
         | None \<Rightarrow>
     (let w2 = amqp (QueueDeclare queue_name True) w1;
          message_id = ''msg_'' @ timestamp (utcnow e 0);
          message_body = PDict [(''id'', PStr message_id),
                                (''message'', PStr (message message_request)),
                                (''priority'', PStr (priority message_request)),
                                (''timestamp'', PStr (isoformat (utcnow e 1)))]
      in case mq_basic_publish e of
           Some m \<Rightarrow> (Inl (Error m), w2)
         | None \<Rightarrow>
     (let w3 = amqp (BasicPublish [] queue_name message_body 2) w2
      in case mq_channel_close e of
           Some m \<Rightarrow> (Inl (Error m), w3)
         | None \<Rightarrow>
     (let w4 = amqp ChannelClose w3
      in case mq_close e of
           Some m \<Rightarrow> (Inl (Error m), w4)
         | None \<Rightarrow>
     (let w5 = amqp ConnectionClose w4
      in (Inr (MessageResponse message_id (message message_request) ''sent''
                 (isoformat (utcnow e 2))), w5)))))))"

definition send_message :: "MessageRequest \<Rightarrow> env \<Rightarrow> world \<Rightarrow> (exn + content) \<times> world" where
  "send_message message_request e w0 =
     (let w1 = inc (''POST'', ''/messages'') w0;
          (rabbitmq_conn, w2) = get_rabbitmq_connection e w1
      in case rabbitmq_conn of
           None \<Rightarrow> (Inl (HTTPException 503 ''RabbitMQ service unavailable''), w2)
         | Some c \<Rightarrow>
             (case send_message_try message_request e w2 of
                (Inr r, w3) \<Rightarrow> (Inr r, w3)
              | (Inl ex, w3) \<Rightarrow>
                  (Inl (HTTPException 500 ''Failed to send message''),
                   logger_error ''Failed to send message'' ex w3)))"

section \<open>User listing handler\<close>

text \<open>
  The handler sends one fixed query,
  \<^verbatim>\<open>SELECT * FROM users ORDER BY created_at DESC LIMIT 10\<close>,
  and PostgreSQL evaluates it. The column \<open>created_at\<close> holds a point in time (\<open>PInt\<close>) or
  NULL; in a descending order PostgreSQL places NULL first. Sorting by the negated time,
  with \<open>None\<close> below every \<open>Some\<close>, is that order.
\<close>

definition created_at :: "row \<Rightarrow> int option" where
  "created_at r = (case map_of r ''created_at'' of Some (PInt t) \<Rightarrow> Some t | _ \<Rightarrow> None)"

definition order_by_created_at_desc :: "row list \<Rightarrow> row list" where
  "order_by_created_at_desc rs = sort_key (\<lambda>r. map_option uminus (created_at r)) rs"

definition select_users :: "row list \<Rightarrow> row list" where
  "select_users rs = take 10 (order_by_created_at_desc rs)"

text \<open>The body of the \<^verbatim>\<open>try\<close> block of \<open>get_users\<close>; \<^verbatim>\<open>dict(user)\<close> keeps each row as it is.\<close>

definition get_users_try :: "env \<Rightarrow> world \<Rightarrow> exn + content" where
  "get_users_try e w =
     (case cursor_open e of
        Some m \<Rightarrow> Inl (Error m)
      | None \<Rightarrow>
          (case cursor_execute e of
             Some m \<Rightarrow> Inl (cursor_exit e m)
           | None \<Rightarrow>
               (case cursor_fetchall e of
                  Some m \<Rightarrow> Inl (cursor_exit e m)
                | None \<Rightarrow>
                    (let users = select_users (users_table w)
                     in case cursor_close e of
                          Some m \<Rightarrow> Inl (Error m)
                        | None \<Rightarrow>
                            (case db_close e of
                               Some m \<Rightarrow> Inl (Error m)
                             | None \<Rightarrow>
                                 Inr (Json (PDict [(''users'', PList (map PDict users))])))))))"

definition get_users :: "env \<Rightarrow> world \<Rightarrow> (exn + content) \<times> world" where
  "get_users e w0 =
     (let w1 = inc (''GET'', ''/database/users'') w0;
          (db_conn, w2) = get_db_connection e w1
      in case db_conn of
           None \<Rightarrow> (Inl (HTTPException 503 ''Database service unavailable''), w2)
         | Some c \<Rightarrow>
             (case get_users_try e w2 of
                Inr r \<Rightarrow> (Inr r, w2)
              | Inl ex \<Rightarrow>
                  (Inl (HTTPException 500 ''Failed to get users''),
                   logger_error ''Failed to get users'' ex w2)))"

section \<open>Routing\<close>

text \<open>The seven routes registered on the application, with the parameters they bind.\<close>

datatype request =
    GET_root
  | GET_health
  | GET_metrics
  | POST_messages MessageRequest
  | GET_cache string
  | POST_cache string string
  | GET_database_users

fun handle :: "request \<Rightarrow> env \<Rightarrow> world \<Rightarrow> (exn + content) \<times> world" where
  "handle GET_root e w = root e w"
| "handle GET_health e w = health_check e w"
| "handle GET_metrics e w = metrics e w"
| "handle (POST_messages message_request) e w = send_message message_request e w"
| "handle (GET_cache key) e w = get_cache key e w"
| "handle (POST_cache key v) e w = set_cache key v e w"
| "handle GET_database_users e w = get_users e w"

text \<open>The label pair each handler passes to \<^verbatim>\<open>REQUEST_COUNT.labels\<close>.\<close>

fun metric_label :: "request \<Rightarrow> string \<times> string" where
  "metric_label GET_root = (''GET'', ''/'')"
| "metric_label GET_health = (''GET'', ''/health'')"
| "metric_label GET_metrics = (''GET'', ''/metrics'')"
| "metric_label (POST_messages message_request) = (''POST'', ''/messages'')"
| "metric_label (GET_cache key) = (''GET'', ''/cache'')"
| "metric_label (POST_cache key v) = (''POST'', ''/cache'')"
| "metric_label GET_database_users = (''GET'', ''/database/users'')"

text \<open>Serving a sequence of requests, each with the environment it meets.\<close>

fun serve :: "(request \<times> env) list \<Rightarrow> world \<Rightarrow> world" where
  "serve [] w = w"
| "serve ((r, e) # rs) w = serve rs (snd (handle r e w))"

text \<open>Reading a field of a JSON response body.\<close>

fun field :: "string \<Rightarrow> exn + content \<Rightarrow> pyval option" where
  "field k (Inr (Json (PDict kvs))) = map_of kvs k"
| "field k r = None"

section \<open>Concrete environments and states\<close>

text \<open>An environment in which every backend call succeeds, and an empty initial state.\<close>

definition env_up :: env where
  "env_up =
     \<lparr>psycopg2_connect = None, cursor_open = None, cursor_execute = None,
      cursor_fetchall = None, cursor_close = None, db_close = None,
      redis_init = None, redis_ping = None, redis_ping_again = None,
      redis_get = None, redis_set = None, redis_time = 1000,
      pika_connect = None, mq_channel = None, mq_queue_declare = None,
      mq_basic_publish = None, mq_channel_close = None, mq_close = None,
      utcnow = (\<lambda>k. \<lparr>timestamp = ''1700000000.5'', isoformat = ''2023-11-14T22:13:20.500000''\<rparr>)\<rparr>"

text \<open>An environment in which no backend accepts a connection.\<close>

definition env_down :: env where
  "env_down =
     env_up\<lparr>psycopg2_connect := Some ''connection refused'',
            redis_ping := Some ''connection refused'',
            pika_connect := Some ''connection refused''\<rparr>"

definition world0 :: world where
  "world0 =
     \<lparr>REQUEST_COUNT = (\<lambda>l. 0), REQUEST_DURATION = [], redis_db = Map.empty, broker = [],
      users_table = [], logged = []\<rparr>"

text \<open>A state in which the key \<open>foo\<close> holds an older value.\<close>

definition world_foo :: world where
  "world_foo = world0\<lparr>redis_db := [''foo'' \<mapsto> (''old'', 2000)]\<rparr>"

text \<open>An environment like \<open>env_up\<close> whose clock reads a later instant.\<close>

definition env_later :: env where
  "env_later = env_up\<lparr>utcnow := (\<lambda>k. \<lparr>timestamp = ''1700000001.25'',
                                         isoformat = ''2023-11-14T22:13:21.250000''\<rparr>)\<rparr>"

text \<open>A publish request that leaves the priority out.\<close>

definition hello :: MessageRequest where
  "hello = MessageRequest_init ''hello'' None"

text \<open>A \<open>users\<close> table with a NULL creation time, and one with twelve rows.\<close>

definition three_users :: "row list" where
  "three_users =
     [[(''id'', PInt 1), (''created_at'', PInt 100)],
      [(''id'', PInt 2), (''created_at'', PNone)],
      [(''id'', PInt 3), (''created_at'', PInt 300)]]"

definition twelve_users :: "row list" where
  "twelve_users =
     map (\<lambda>i. [(''id'', PInt i), (''created_at'', PInt (1000 + i))])
       [1, 2, 3, 4, 5, 6, 7, 8, 9, 10, 11, 12]"

section \<open>Vocabulary of the properties\<close>

text \<open>The connectivity word the health check reports for a probe that came out \<open>up\<close>.\<close>

definition conn_state :: "bool \<Rightarrow> string" where
  "conn_state up = (if up then ''connected'' else ''disconnected'')"

text \<open>
  \<open>desc_nulls_first a b\<close>: a row with creation time \<open>a\<close> may stand before a row with
  creation time \<open>b\<close> in a descending order that places NULL first.
\<close>

fun desc_nulls_first :: "int option \<Rightarrow> int option \<Rightarrow> bool" where
  "desc_nulls_first None b = True"
| "desc_nulls_first (Some x) None = False"
| "desc_nulls_first (Some x) (Some y) = (y \<le> x)"

text \<open>The calls a publish issues on the broker when it runs to its end.\<close>

definition publish_calls :: "MessageRequest \<Rightarrow> env \<Rightarrow> amqp_call list" where
  "publish_calls req e =
     [Channel,
      QueueDeclare (''messages_'' @ priority req) True,
      BasicPublish [] (''messages_'' @ priority req)
        (PDict [(''id'', PStr (''msg_'' @ timestamp (utcnow e 0))),
                (''message'', PStr (message req)),
                (''priority'', PStr (priority req)),
                (''timestamp'', PStr (isoformat (utcnow e 1)))]) 2,
      ChannelClose, ConnectionClose]"

section \<open>Cache handlers: properties\<close>

text \<open>
  C1. The claim: reading a key that is absent from the cache, with the cache reachable,
  ends in 404 and never in 500. The handler raises the 404 inside its \<^verbatim>\<open>try\<close> block,
  where \<^verbatim>\<open>except Exception\<close> catches it and raises the 500 instead. Evaluated on a key
  never written, with every backend call succeeding: the status is 500.
\<close>

theorem get_cache_missing_key_500:
  "status_code (fst (get_cache ''foo'' env_up world0)) = 500"
  by (simp add: get_cache_def get_cache_try_def get_redis_connection_def inc_def
      logger_error_def GET_def env_up_def world0_def)

text \<open>The same for every absent key, and in every reachable environment.\<close>

lemma get_cache_absent_500:
  assumes "redis_init e = None" "redis_ping e = None" "redis_get e = None"
    and "GET (redis_db w) (redis_time e) key = None"
  shows "fst (get_cache key e w) = Inl (HTTPException 500 ''Failed to get cache value'')"
  using assms
  by (simp add: get_cache_def get_cache_try_def get_redis_connection_def inc_def Let_def)

text \<open>
  C10. Handling a cache read leaves the contents of the cache as they were: every key's
  value and deadline, on every path of the handler.
\<close>

theorem get_cache_frame: "redis_db (snd (get_cache key e w)) = redis_db w"
  by (simp add: get_cache_def get_redis_connection_def inc_def logger_error_def Let_def
      split: option.splits sum.splits)

text \<open>
  C7. A successful cache write returns the echo \<open>{key, value, status: set}\<close> and leaves
  the key bound to the new value with a deadline 3600 seconds after the server's time,
  whatever was stored under the key before; no other key changes.
\<close>

theorem set_cache_overwrites:
  assumes "status_code (fst (set_cache key v e w)) = 200"
  shows "fst (set_cache key v e w) =
           Inr (Json (PDict [(''key'', PStr key), (''value'', PStr v),
                             (''status'', PStr ''set'')]))
         \<and> redis_db (snd (set_cache key v e w)) =
             (redis_db w)(key \<mapsto> (v, redis_time e + 3600))"
  using assms
  by (simp add: set_cache_def set_cache_try_def get_redis_connection_def inc_def
      logger_error_def SET_def Let_def split: option.splits)

theorem set_cache_overwrites_witness:
  "status_code (fst (set_cache ''foo'' ''bar'' env_up world_foo)) = 200
   \<and> fst (set_cache ''foo'' ''bar'' env_up world_foo) =
       Inr (Json (PDict [(''key'', PStr ''foo''), (''value'', PStr ''bar''),
                         (''status'', PStr ''set'')]))
   \<and> redis_db (snd (set_cache ''foo'' ''bar'' env_up world_foo)) =
       (redis_db world_foo)(''foo'' \<mapsto> (''bar'', redis_time env_up + 3600))"
proof -
  have h: "status_code (fst (set_cache ''foo'' ''bar'' env_up world_foo)) = 200"
    by (simp add: set_cache_def set_cache_try_def get_redis_connection_def env_up_def
        Let_def)
  show ?thesis using h set_cache_overwrites [OF h] by simp
qed

text \<open>
  C8. After a successful write of \<open>v\<close> under \<open>key\<close>, a read of \<open>key\<close> on the state the
  write left, at a server time inside the 3600 seconds, with the cache reachable and the
  lookup not failing, returns \<open>{key, value: v}\<close>.
\<close>

theorem set_then_get:
  assumes "status_code (fst (set_cache key v e1 w)) = 200"
    and "redis_time e1 \<le> redis_time e2" and "redis_time e2 < redis_time e1 + 3600"
    and "redis_init e2 = None" and "redis_ping e2 = None" and "redis_get e2 = None"
  shows "fst (get_cache key e2 (snd (set_cache key v e1 w))) =
           Inr (Json (PDict [(''key'', PStr key), (''value'', PStr v)]))"
  using assms
  by (simp add: get_cache_def get_cache_try_def set_cache_def set_cache_try_def
      get_redis_connection_def inc_def logger_error_def GET_def SET_def Let_def
      split: option.splits)

theorem set_then_get_witness:
  "status_code (fst (set_cache ''foo'' ''bar'' env_up world_foo)) = 200
   \<and> fst (get_cache ''foo'' (env_up\<lparr>redis_time := 4599\<rparr>)
            (snd (set_cache ''foo'' ''bar'' env_up world_foo))) =
       Inr (Json (PDict [(''key'', PStr ''foo''), (''value'', PStr ''bar'')]))"
proof -
  have h: "status_code (fst (set_cache ''foo'' ''bar'' env_up world_foo)) = 200"
    by (simp add: set_cache_def set_cache_try_def get_redis_connection_def env_up_def
        Let_def)
  have t1: "redis_time env_up \<le> redis_time (env_up\<lparr>redis_time := 4599\<rparr>)"
    by (simp add: env_up_def)
  have t2: "redis_time (env_up\<lparr>redis_time := 4599\<rparr>) < redis_time env_up + 3600"
    by (simp add: env_up_def)
  have c1: "redis_init (env_up\<lparr>redis_time := 4599\<rparr>) = None" by (simp add: env_up_def)
  have c2: "redis_ping (env_up\<lparr>redis_time := 4599\<rparr>) = None" by (simp add: env_up_def)
  have c3: "redis_get (env_up\<lparr>redis_time := 4599\<rparr>) = None" by (simp add: env_up_def)
  show ?thesis using h set_then_get [OF h t1 t2 c1 c2 c3] by simp
qed

section \<open>Health check: properties\<close>

lemma check_postgresql_services:
  "fst (check_postgresql e sw) =
     (if psycopg2_connect e = None \<and> cursor_open e = None \<and> cursor_execute e = None
      then AList.update ''postgresql'' ''connected'' (fst sw) else fst sw)"
  by (cases sw)
    (simp add: check_postgresql_def get_db_connection_def postgresql_try_def Let_def
      split: option.splits)

lemma check_redis_services:
  "fst (check_redis e sw) =
     (if redis_init e = None \<and> redis_ping e = None \<and> redis_ping_again e = None
      then AList.update ''redis'' ''connected'' (fst sw) else fst sw)"
  by (cases sw)
    (simp add: check_redis_def get_redis_connection_def redis_try_def Let_def
      split: option.splits)

lemma check_rabbitmq_services:
  "fst (check_rabbitmq e sw) =
     (if pika_connect e = None \<and> mq_close e = None
      then AList.update ''rabbitmq'' ''connected'' (fst sw) else fst sw)"
  by (cases sw)
    (simp add: check_rabbitmq_def get_rabbitmq_connection_def rabbitmq_try_def Let_def
      split: option.splits)

lemma health_check_services:
  "fst (health_check e w) =
     Inr (HealthResponse ''healthy'' ''API is running'' (isoformat (utcnow e 0)) ''1.0.0''
       (fst (check_rabbitmq e (check_redis e (check_postgresql e
          ([(''postgresql'', ''disconnected''), (''redis'', ''disconnected''),
            (''rabbitmq'', ''disconnected'')], inc (''GET'', ''/health'') w))))))"
  by (simp add: health_check_def Let_def case_prod_beta)

text \<open>
  C2. Whatever the backends do, the health check returns 200 with status \<open>healthy\<close>, and
  the entry of each backend is decided by that backend's probe alone: PostgreSQL by
  connecting, opening a cursor and executing \<open>SELECT 1\<close>; Redis by the accessor's
  construction and ping and the handler's second ping; RabbitMQ by opening and closing a
  connection.
\<close>

theorem health_check_always_healthy:
  "status_code (fst (health_check e w)) = 200 \<and>
   fst (health_check e w) =
     Inr (HealthResponse ''healthy'' ''API is running'' (isoformat (utcnow e 0)) ''1.0.0''
       [(''postgresql'', conn_state (psycopg2_connect e = None \<and> cursor_open e = None
                                      \<and> cursor_execute e = None)),
        (''redis'', conn_state (redis_init e = None \<and> redis_ping e = None
                                 \<and> redis_ping_again e = None)),
        (''rabbitmq'', conn_state (pika_connect e = None \<and> mq_close e = None))])"
  by (simp add: health_check_services check_rabbitmq_services check_redis_services
      check_postgresql_services conn_state_def)

section \<open>Metrics: properties\<close>

lemma inc_frame [simp]:
  "REQUEST_DURATION (inc l w) = REQUEST_DURATION w"
  "REQUEST_COUNT (inc l w) = (REQUEST_COUNT w)(l := REQUEST_COUNT w l + 1)"
  by (simp_all add: inc_def)

lemma logger_error_metrics [simp]:
  "REQUEST_DURATION (logger_error p x w) = REQUEST_DURATION w"
  "REQUEST_COUNT (logger_error p x w) = REQUEST_COUNT w"
  by (simp_all add: logger_error_def)

lemma amqp_metrics [simp]:
  "REQUEST_DURATION (amqp c w) = REQUEST_DURATION w"
  "REQUEST_COUNT (amqp c w) = REQUEST_COUNT w"
  by (simp_all add: amqp_def)

lemma get_db_connection_metrics [simp]:
  "REQUEST_DURATION (snd (get_db_connection e w)) = REQUEST_DURATION w"
  "REQUEST_COUNT (snd (get_db_connection e w)) = REQUEST_COUNT w"
  by (simp_all add: get_db_connection_def split: option.splits)

lemma get_redis_connection_metrics [simp]:
  "REQUEST_DURATION (snd (get_redis_connection e w)) = REQUEST_DURATION w"
  "REQUEST_COUNT (snd (get_redis_connection e w)) = REQUEST_COUNT w"
  by (simp_all add: get_redis_connection_def split: option.splits)

lemma get_rabbitmq_connection_metrics [simp]:
  "REQUEST_DURATION (snd (get_rabbitmq_connection e w)) = REQUEST_DURATION w"
  "REQUEST_COUNT (snd (get_rabbitmq_connection e w)) = REQUEST_COUNT w"
  by (simp_all add: get_rabbitmq_connection_def split: option.splits)

lemma check_postgresql_metrics [simp]:
  "REQUEST_DURATION (snd (check_postgresql e sw)) = REQUEST_DURATION (snd sw)"
  "REQUEST_COUNT (snd (check_postgresql e sw)) = REQUEST_COUNT (snd sw)"
  by (cases sw; simp add: check_postgresql_def get_db_connection_def Let_def
      split: option.splits prod.splits sum.splits)+

lemma check_redis_metrics [simp]:
  "REQUEST_DURATION (snd (check_redis e sw)) = REQUEST_DURATION (snd sw)"
  "REQUEST_COUNT (snd (check_redis e sw)) = REQUEST_COUNT (snd sw)"
  by (cases sw; simp add: check_redis_def get_redis_connection_def Let_def
      split: option.splits prod.splits sum.splits)+

lemma check_rabbitmq_metrics [simp]:
  "REQUEST_DURATION (snd (check_rabbitmq e sw)) = REQUEST_DURATION (snd sw)"
  "REQUEST_COUNT (snd (check_rabbitmq e sw)) = REQUEST_COUNT (snd sw)"
  by (cases sw; auto simp add: check_rabbitmq_def get_rabbitmq_connection_def rabbitmq_try_def Let_def
      split: option.splits prod.splits sum.splits)+

lemma send_message_try_metrics [simp]:
  "REQUEST_DURATION (snd (send_message_try r e w)) = REQUEST_DURATION w"
  "REQUEST_COUNT (snd (send_message_try r e w)) = REQUEST_COUNT w"
  by (simp_all add: send_message_try_def Let_def split: option.splits)

lemma set_cache_try_metrics [simp]:
  "REQUEST_DURATION (snd (set_cache_try k v e w)) = REQUEST_DURATION w"
  "REQUEST_COUNT (snd (set_cache_try k v e w)) = REQUEST_COUNT w"
  by (simp_all add: set_cache_try_def split: option.splits)

lemma root_metrics:
  "REQUEST_DURATION (snd (root e w)) = REQUEST_DURATION w"
  "REQUEST_COUNT (snd (root e w)) = (REQUEST_COUNT w)((''GET'', ''/'') := REQUEST_COUNT w (''GET'', ''/'') + 1)"
  by (simp_all add: root_def Let_def)

lemma metrics_metrics:
  "REQUEST_DURATION (snd (metrics e w)) = REQUEST_DURATION w"
  "REQUEST_COUNT (snd (metrics e w)) = (REQUEST_COUNT w)((''GET'', ''/metrics'') := REQUEST_COUNT w (''GET'', ''/metrics'') + 1)"
  by (simp_all add: metrics_def Let_def)

lemma health_check_metrics:
  "REQUEST_DURATION (snd (health_check e w)) = REQUEST_DURATION w"
  "REQUEST_COUNT (snd (health_check e w)) = (REQUEST_COUNT w)((''GET'', ''/health'') := REQUEST_COUNT w (''GET'', ''/health'') + 1)"
  by (simp_all add: health_check_def Let_def case_prod_beta)

lemma send_message_metrics:
  "REQUEST_DURATION (snd (send_message r e w)) = REQUEST_DURATION w"
  "REQUEST_COUNT (snd (send_message r e w)) =
     (REQUEST_COUNT w)((''POST'', ''/messages'') := REQUEST_COUNT w (''POST'', ''/messages'') + 1)"
proof -
  obtain c w2 where a: "get_rabbitmq_connection e (inc (''POST'', ''/messages'') w) = (c, w2)"
    by (cases "get_rabbitmq_connection e (inc (''POST'', ''/messages'') w)")
  have d: "REQUEST_DURATION w2 = REQUEST_DURATION w"
    using get_rabbitmq_connection_metrics(1) [of e "inc (''POST'', ''/messages'') w"] a by simp
  have k: "REQUEST_COUNT w2 =
     (REQUEST_COUNT w)((''POST'', ''/messages'') := REQUEST_COUNT w (''POST'', ''/messages'') + 1)"
    using get_rabbitmq_connection_metrics(2) [of e "inc (''POST'', ''/messages'') w"] a by simp
  obtain r3 w3 where t: "send_message_try r e w2 = (r3, w3)"
    by (cases "send_message_try r e w2")
  have d3: "REQUEST_DURATION w3 = REQUEST_DURATION w2" "REQUEST_COUNT w3 = REQUEST_COUNT w2"
    using send_message_try_metrics [of r e w2] t by simp_all
  show "REQUEST_DURATION (snd (send_message r e w)) = REQUEST_DURATION w"
    using a t d d3 by (simp add: send_message_def Let_def split: option.splits sum.splits)
  show "REQUEST_COUNT (snd (send_message r e w)) =
     (REQUEST_COUNT w)((''POST'', ''/messages'') := REQUEST_COUNT w (''POST'', ''/messages'') + 1)"
    using a t k d3 by (simp add: send_message_def Let_def split: option.splits sum.splits)
qed

lemma get_cache_metrics:
  "REQUEST_DURATION (snd (get_cache key e w)) = REQUEST_DURATION w"
  "REQUEST_COUNT (snd (get_cache key e w)) =
     (REQUEST_COUNT w)((''GET'', ''/cache'') := REQUEST_COUNT w (''GET'', ''/cache'') + 1)"
  by (simp_all add: get_cache_def get_redis_connection_def Let_def
      split: option.splits sum.splits)

lemma set_cache_metrics:
  "REQUEST_DURATION (snd (set_cache key v e w)) = REQUEST_DURATION w"
  "REQUEST_COUNT (snd (set_cache key v e w)) =
     (REQUEST_COUNT w)((''POST'', ''/cache'') := REQUEST_COUNT w (''POST'', ''/cache'') + 1)"
  by (simp_all add: set_cache_def set_cache_try_def get_redis_connection_def SET_def Let_def
      split: option.splits sum.splits)

lemma get_users_metrics:
  "REQUEST_DURATION (snd (get_users e w)) = REQUEST_DURATION w"
  "REQUEST_COUNT (snd (get_users e w)) =
     (REQUEST_COUNT w)((''GET'', ''/database/users'') :=
        REQUEST_COUNT w (''GET'', ''/database/users'') + 1)"
  by (simp_all add: get_users_def get_db_connection_def Let_def
      split: option.splits sum.splits)

lemma handle_metrics:
  "REQUEST_DURATION (snd (handle r e w)) = REQUEST_DURATION w"
  "REQUEST_COUNT (snd (handle r e w)) =
     (REQUEST_COUNT w)(metric_label r := REQUEST_COUNT w (metric_label r) + 1)"
  by (cases r; simp add: root_metrics health_check_metrics metrics_metrics
      send_message_metrics get_cache_metrics set_cache_metrics get_users_metrics)+

text \<open>
  C3, as amended. Over any sequence of handler invocations, whatever their outcomes, the
  request counter of every label pair has grown by exactly the number of invocations
  carrying that label, so each invocation increments its counter by one and no counter is
  ever reset; the latency histogram is left as it was, since no handler records an
  observation in it.
\<close>

theorem request_counter_counts_invocations:
  "REQUEST_COUNT (serve rs w) l =
     REQUEST_COUNT w l + length (filter (\<lambda>(r, e). metric_label r = l) rs)
   \<and> REQUEST_DURATION (serve rs w) = REQUEST_DURATION w"
proof (induction rs arbitrary: w)
  case Nil
  show ?case by simp
next
  case (Cons p rs)
  obtain r e where p: "p = (r, e)" by (cases p)
  show ?case using Cons.IH [of "snd (handle r e w)"] p
    by (simp add: handle_metrics)
qed

text \<open>
  C3, as stated, fails: the claim has the latency histogram incremented on every handler
  invocation. A request to the root route leaves the histogram without a new observation.
\<close>

theorem histogram_not_incremented:
  "REQUEST_DURATION (snd (handle GET_root env_up world0)) = REQUEST_DURATION world0"
  by (simp add: root_def inc_def Let_def)

section \<open>Message publishing: properties\<close>

lemma send_message_ok:
  assumes "status_code (fst (send_message req e w)) = 200"
  shows "pika_connect e = None \<and> mq_channel e = None \<and> mq_queue_declare e = None \<and>
         mq_basic_publish e = None \<and> mq_channel_close e = None \<and> mq_close e = None"
  using assms
  by (simp add: send_message_def send_message_try_def get_rabbitmq_connection_def Let_def
      split: option.splits)

lemma send_message_success:
  assumes "pika_connect e = None" "mq_channel e = None" "mq_queue_declare e = None"
    "mq_basic_publish e = None" "mq_channel_close e = None" "mq_close e = None"
  shows "fst (send_message req e w) =
           Inr (MessageResponse (''msg_'' @ timestamp (utcnow e 0)) (message req) ''sent''
                  (isoformat (utcnow e 2)))"
    and "broker (snd (send_message req e w)) =
           broker w @
           [Channel,
            QueueDeclare (''messages_'' @ priority req) True,
            BasicPublish [] (''messages_'' @ priority req)
              (PDict [(''id'', PStr (''msg_'' @ timestamp (utcnow e 0))),
                      (''message'', PStr (message req)),
                      (''priority'', PStr (priority req)),
                      (''timestamp'', PStr (isoformat (utcnow e 1)))]) 2,
            ChannelClose, ConnectionClose]"
  using assms
  by (simp_all add: send_message_def send_message_try_def get_rabbitmq_connection_def Let_def
      amqp_def inc_def)

lemma hello_sent: "status_code (fst (send_message hello env_up w)) = 200"
  by (simp add: send_message_def send_message_try_def get_rabbitmq_connection_def Let_def
      env_up_def)

lemma hello_sent_later: "status_code (fst (send_message hello env_later w)) = 200"
  by (simp add: send_message_def send_message_try_def get_rabbitmq_connection_def Let_def
      env_up_def env_later_def)

text \<open>
  C4, as amended. The identifier of a successful publish is \<open>msg_\<close> followed by the
  text of the clock reading taken when the message is built. Two successful publishes
  therefore carry distinct identifiers exactly when those two readings differ in their
  text; the message and the priority play no part.
\<close>

theorem message_ids_follow_clock:
  assumes "status_code (fst (send_message req1 e1 w1)) = 200"
    and "status_code (fst (send_message req2 e2 w2)) = 200"
  shows "field ''id'' (fst (send_message req1 e1 w1)) =
           Some (PStr (''msg_'' @ timestamp (utcnow e1 0)))
         \<and> field ''id'' (fst (send_message req2 e2 w2)) =
           Some (PStr (''msg_'' @ timestamp (utcnow e2 0)))
         \<and> (field ''id'' (fst (send_message req1 e1 w1)) =
              field ''id'' (fst (send_message req2 e2 w2))
            \<longleftrightarrow> timestamp (utcnow e1 0) = timestamp (utcnow e2 0))"
proof -
  have a: "fst (send_message req1 e1 w1) =
           Inr (MessageResponse (''msg_'' @ timestamp (utcnow e1 0)) (message req1) ''sent''
                  (isoformat (utcnow e1 2)))"
    using send_message_ok [OF assms(1)] by (simp add: send_message_success(1))
  have b: "fst (send_message req2 e2 w2) =
           Inr (MessageResponse (''msg_'' @ timestamp (utcnow e2 0)) (message req2) ''sent''
                  (isoformat (utcnow e2 2)))"
    using send_message_ok [OF assms(2)] by (simp add: send_message_success(1))
  show ?thesis by (simp add: a b MessageResponse_def)
qed

text \<open>Two publishes of the same request under different clock readings.\<close>

theorem message_ids_follow_clock_witness:
  "status_code (fst (send_message hello env_up world0)) = 200
   \<and> status_code (fst (send_message hello env_later
        (snd (send_message hello env_up world0)))) = 200
   \<and> field ''id'' (fst (send_message hello env_up world0)) \<noteq>
     field ''id'' (fst (send_message hello env_later (snd (send_message hello env_up world0))))"
proof -
  have t: "timestamp (utcnow env_up 0) \<noteq> timestamp (utcnow env_later 0)"
    by (simp add: env_up_def env_later_def)
  show ?thesis
    using t message_ids_follow_clock [OF hello_sent hello_sent_later, of world0
        "snd (send_message hello env_up world0)"]
      hello_sent [of world0] hello_sent_later [of "snd (send_message hello env_up world0)"]
    by simp
qed

text \<open>
  C4, as stated, fails: two successful publishes of the same request that read the same
  instant from the clock answer with the same identifier.
\<close>

theorem same_clock_same_id:
  "status_code (fst (send_message hello env_up world0)) = 200
   \<and> status_code (fst (send_message hello env_up (snd (send_message hello env_up world0)))) = 200
   \<and> field ''id'' (fst (send_message hello env_up world0)) =
     field ''id'' (fst (send_message hello env_up (snd (send_message hello env_up world0))))"
  using hello_sent [of world0] hello_sent [of "snd (send_message hello env_up world0)"]
  by (simp add: send_message_success(1) env_up_def MessageResponse_def)

lemma send_message_status_priority:
  "status_code (fst (send_message (req\<lparr>priority := p\<rparr>) e w)) =
   status_code (fst (send_message req e w))"
  by (simp add: send_message_def send_message_try_def get_rabbitmq_connection_def Let_def
      split: option.splits)

lemma send_message_calls_prefix:
  "\<exists>k. broker (snd (send_message req e w)) = broker w @ take k (publish_calls req e)"
proof (cases "pika_connect e")
  case (Some m)
  then have "broker (snd (send_message req e w)) = broker w @ take 0 (publish_calls req e)"
    by (simp add: send_message_def get_rabbitmq_connection_def Let_def inc_def logger_error_def)
  then show ?thesis by blast
next
  case c: None
  show ?thesis
  proof (cases "mq_channel e")
    case (Some m)
    with c have "broker (snd (send_message req e w)) = broker w @ take 0 (publish_calls req e)"
      by (simp add: send_message_def send_message_try_def get_rabbitmq_connection_def Let_def
          inc_def logger_error_def)
    then show ?thesis by blast
  next
    case ch: None
    show ?thesis
    proof (cases "mq_queue_declare e")
      case (Some m)
      with c ch have "broker (snd (send_message req e w)) =
          broker w @ take 1 (publish_calls req e)"
        by (simp add: send_message_def send_message_try_def get_rabbitmq_connection_def
            Let_def inc_def logger_error_def amqp_def publish_calls_def)
      then show ?thesis by blast
    next
      case d: None
      show ?thesis
      proof (cases "mq_basic_publish e")
        case (Some m)
        with c ch d have "broker (snd (send_message req e w)) =
            broker w @ take 2 (publish_calls req e)"
          by (simp add: send_message_def send_message_try_def get_rabbitmq_connection_def
              Let_def inc_def logger_error_def amqp_def publish_calls_def)
        then show ?thesis by blast
      next
        case p: None
        show ?thesis
        proof (cases "mq_channel_close e")
          case (Some m)
          with c ch d p have "broker (snd (send_message req e w)) =
              broker w @ take 3 (publish_calls req e)"
            by (simp add: send_message_def send_message_try_def get_rabbitmq_connection_def
                Let_def inc_def logger_error_def amqp_def publish_calls_def)
          then show ?thesis by blast
        next
          case cc: None
          show ?thesis
          proof (cases "mq_close e")
            case (Some m)
            with c ch d p cc have "broker (snd (send_message req e w)) =
                broker w @ take 4 (publish_calls req e)"
              by (simp add: send_message_def send_message_try_def
                  get_rabbitmq_connection_def Let_def inc_def logger_error_def amqp_def
                  publish_calls_def)
            then show ?thesis by blast
          next
            case None
            with c ch d p cc have "broker (snd (send_message req e w)) =
                broker w @ take 5 (publish_calls req e)"
              using send_message_success(2) [where e = e and req = req and w = w] by (simp add: publish_calls_def)
            then show ?thesis by blast
          qed
        qed
      qed
    qed
  qed
qed

text \<open>
  C5. A request built without a priority has priority \<open>normal\<close>, one built with a
  priority keeps it. The outcome of a publish does not depend on the priority string, so
  no priority is turned away. The calls a publish issues on the broker are an initial part
  of: open a channel, declare the durable queue \<open>messages_\<close> followed by the priority,
  publish to that same queue with delivery mode 2, close the channel, close the
  connection; a publish that answers 200 has issued all of them.
\<close>

theorem send_message_targets_priority_queue:
  "priority (MessageRequest_init m None) = ''normal''
   \<and> priority (MessageRequest_init m (Some p)) = p
   \<and> status_code (fst (send_message (req\<lparr>priority := p\<rparr>) e w)) =
       status_code (fst (send_message req e w))
   \<and> (\<exists>k. broker (snd (send_message req e w)) = broker w @ take k (publish_calls req e))
   \<and> (status_code (fst (send_message req e w)) = 200 \<longrightarrow>
        broker (snd (send_message req e w)) =
          broker w @
          [Channel,
           QueueDeclare (''messages_'' @ priority req) True,
           BasicPublish [] (''messages_'' @ priority req)
             (PDict [(''id'', PStr (''msg_'' @ timestamp (utcnow e 0))),
                     (''message'', PStr (message req)),
                     (''priority'', PStr (priority req)),
                     (''timestamp'', PStr (isoformat (utcnow e 1)))]) 2,
           ChannelClose, ConnectionClose])"
proof -
  have a: "priority (MessageRequest_init m None) = ''normal''"
    and b: "priority (MessageRequest_init m (Some p)) = p"
    by (simp_all add: MessageRequest_init_def)
  have c: "status_code (fst (send_message req e w)) = 200 \<longrightarrow>
        broker (snd (send_message req e w)) =
          broker w @
          [Channel,
           QueueDeclare (''messages_'' @ priority req) True,
           BasicPublish [] (''messages_'' @ priority req)
             (PDict [(''id'', PStr (''msg_'' @ timestamp (utcnow e 0))),
                     (''message'', PStr (message req)),
                     (''priority'', PStr (priority req)),
                     (''timestamp'', PStr (isoformat (utcnow e 1)))]) 2,
           ChannelClose, ConnectionClose]"
  proof
    assume "status_code (fst (send_message req e w)) = 200"
    from send_message_ok [OF this] show "broker (snd (send_message req e w)) =
          broker w @
          [Channel,
           QueueDeclare (''messages_'' @ priority req) True,
           BasicPublish [] (''messages_'' @ priority req)
             (PDict [(''id'', PStr (''msg_'' @ timestamp (utcnow e 0))),
                     (''message'', PStr (message req)),
                     (''priority'', PStr (priority req)),
                     (''timestamp'', PStr (isoformat (utcnow e 1)))]) 2,
           ChannelClose, ConnectionClose]"
      by (simp add: send_message_success(2))
  qed
  from a b c send_message_status_priority [where req = req and p = p and e = e and w = w] send_message_calls_prefix [of req e w]
  show ?thesis by blast
qed

text \<open>A publish without a priority goes to \<open>messages_normal\<close>.\<close>

theorem send_message_targets_priority_queue_witness:
  "status_code (fst (send_message hello env_up world0)) = 200
   \<and> broker (snd (send_message hello env_up world0)) =
       [Channel,
        QueueDeclare ''messages_normal'' True,
        BasicPublish [] ''messages_normal''
          (PDict [(''id'', PStr ''msg_1700000000.5''),
                  (''message'', PStr ''hello''),
                  (''priority'', PStr ''normal''),
                  (''timestamp'', PStr ''2023-11-14T22:13:20.500000'')]) 2,
        ChannelClose, ConnectionClose]"
proof -
  have h: "status_code (fst (send_message hello env_up world0)) = 200"
    by (rule hello_sent)
  have "broker (snd (send_message hello env_up world0)) =
          broker world0 @
          [Channel,
           QueueDeclare (''messages_'' @ priority hello) True,
           BasicPublish [] (''messages_'' @ priority hello)
             (PDict [(''id'', PStr (''msg_'' @ timestamp (utcnow env_up 0))),
                     (''message'', PStr (message hello)),
                     (''priority'', PStr (priority hello)),
                     (''timestamp'', PStr (isoformat (utcnow env_up 1)))]) 2,
           ChannelClose, ConnectionClose]"
    using h send_message_targets_priority_queue [where req = hello and e = env_up and w = world0]
    by blast
  then show ?thesis using h
    by (simp add: hello_def MessageRequest_init_def env_up_def world0_def)
qed

section \<open>User listing: properties\<close>

lemma desc_key_le:
  "map_option uminus a \<le> map_option uminus b \<longleftrightarrow> desc_nulls_first a b"
  by (cases a; cases b) simp_all

lemma order_by_sorted:
  "sorted_wrt (\<lambda>r s. desc_nulls_first (created_at r) (created_at s))
     (order_by_created_at_desc rs)"
proof -
  have "sorted (map (\<lambda>r. map_option uminus (created_at r)) (order_by_created_at_desc rs))"
    unfolding order_by_created_at_desc_def by (rule sorted_sort_key)
  then show ?thesis
    by (simp add: sorted_map desc_key_le)
qed

lemma select_users_sorted:
  "sorted_wrt (\<lambda>r s. desc_nulls_first (created_at r) (created_at s)) (select_users rs)"
  unfolding select_users_def by (rule sorted_wrt_take) (rule order_by_sorted)

lemma select_users_length: "length (select_users rs) = min 10 (length rs)"
  by (simp add: select_users_def order_by_created_at_desc_def min.commute)

lemma select_users_subset: "set (select_users rs) \<subseteq> set rs"
proof -
  have "set (take 10 (order_by_created_at_desc rs)) \<subseteq> set (order_by_created_at_desc rs)"
    by (rule set_take_subset)
  then show ?thesis by (simp add: select_users_def order_by_created_at_desc_def)
qed

lemma get_users_ok:
  assumes "status_code (fst (get_users e w)) = 200"
  shows "fst (get_users e w) =
           Inr (Json (PDict [(''users'', PList (map PDict (select_users (users_table w))))]))"
  using assms
  by (simp add: get_users_def get_users_try_def get_db_connection_def Let_def inc_def
      split: option.splits)

text \<open>
  C6. A successful listing returns the rows the query selects, each as the table holds it:
  at most ten of them, all rows of the table, in descending order of \<open>created_at\<close> (rows
  without a creation time first, as PostgreSQL orders them).
\<close>

theorem get_users_ten_newest_first:
  assumes "status_code (fst (get_users e w)) = 200"
  shows "fst (get_users e w) =
           Inr (Json (PDict [(''users'', PList (map PDict (select_users (users_table w))))]))
         \<and> length (select_users (users_table w)) \<le> 10
         \<and> set (select_users (users_table w)) \<subseteq> set (users_table w)
         \<and> sorted_wrt (\<lambda>r s. desc_nulls_first (created_at r) (created_at s))
             (select_users (users_table w))"
  using get_users_ok [OF assms] select_users_sorted [of "users_table w"]
    select_users_subset [of "users_table w"]
  by (simp add: select_users_length)

text \<open>The query on the two example tables.\<close>

lemma select_three: "select_users three_users =
     [[(''id'', PInt 2), (''created_at'', PNone)],
      [(''id'', PInt 3), (''created_at'', PInt 300)],
      [(''id'', PInt 1), (''created_at'', PInt 100)]]"
  by (simp add: select_users_def order_by_created_at_desc_def three_users_def created_at_def)

lemma select_twelve: "map (\<lambda>r. map_of r ''id'') (select_users twelve_users) =
   map (\<lambda>i. Some (PInt i)) [12, 11, 10, 9, 8, 7, 6, 5, 4, 3]"
  by (simp add: select_users_def order_by_created_at_desc_def twelve_users_def created_at_def)

text \<open>A listing over twelve rows.\<close>

theorem get_users_ten_newest_first_witness:
  "status_code (fst (get_users env_up (world0\<lparr>users_table := twelve_users\<rparr>))) = 200
   \<and> length (select_users (users_table (world0\<lparr>users_table := twelve_users\<rparr>))) \<le> 10
   \<and> sorted_wrt (\<lambda>r s. desc_nulls_first (created_at r) (created_at s))
        (select_users (users_table (world0\<lparr>users_table := twelve_users\<rparr>)))"
proof -
  have h: "status_code (fst (get_users env_up (world0\<lparr>users_table := twelve_users\<rparr>))) = 200"
    by (simp add: get_users_def get_users_try_def get_db_connection_def Let_def env_up_def)
  show ?thesis using h get_users_ten_newest_first [OF h] by simp
qed

section \<open>Connection accessors: properties\<close>

lemma get_db_connection_absent:
  "fst (get_db_connection e w) = None \<longleftrightarrow> psycopg2_connect e \<noteq> None"
  by (simp add: get_db_connection_def split: option.splits)

lemma get_redis_connection_absent:
  "fst (get_redis_connection e w) = None \<longleftrightarrow> redis_init e \<noteq> None \<or> redis_ping e \<noteq> None"
  by (simp add: get_redis_connection_def split: option.splits)

lemma get_rabbitmq_connection_absent:
  "fst (get_rabbitmq_connection e w) = None \<longleftrightarrow> pika_connect e \<noteq> None"
  by (simp add: get_rabbitmq_connection_def split: option.splits)

lemma get_users_unavailable:
  assumes "fst (get_db_connection e w) = None"
  shows "get_users e w =
           (Inl (HTTPException 503 ''Database service unavailable''),
            snd (get_db_connection e (inc (''GET'', ''/database/users'') w)))"
  using assms
  by (simp add: get_users_def get_db_connection_def Let_def split: option.splits)

lemma get_cache_unavailable:
  assumes "fst (get_redis_connection e w) = None"
  shows "get_cache key e w =
           (Inl (HTTPException 503 ''Redis service unavailable''),
            snd (get_redis_connection e (inc (''GET'', ''/cache'') w)))"
  using assms
  by (simp add: get_cache_def get_redis_connection_def Let_def split: option.splits)

lemma set_cache_unavailable:
  assumes "fst (get_redis_connection e w) = None"
  shows "set_cache key v e w =
           (Inl (HTTPException 503 ''Redis service unavailable''),
            snd (get_redis_connection e (inc (''POST'', ''/cache'') w)))"
  using assms
  by (simp add: set_cache_def get_redis_connection_def Let_def split: option.splits)

lemma send_message_unavailable:
  assumes "fst (get_rabbitmq_connection e w) = None"
  shows "send_message req e w =
           (Inl (HTTPException 503 ''RabbitMQ service unavailable''),
            snd (get_rabbitmq_connection e (inc (''POST'', ''/messages'') w)))"
  using assms
  by (simp add: send_message_def get_rabbitmq_connection_def Let_def split: option.splits)

lemma accessor_frames:
  "redis_db (snd (get_redis_connection e w)) = redis_db w"
  "broker (snd (get_rabbitmq_connection e w)) = broker w"
  by (simp_all add: get_redis_connection_def get_rabbitmq_connection_def logger_error_def
      split: option.splits)

text \<open>
  C9, as amended. Each accessor answers a failed connection with no connection, and it is
  a function into an option: no exception leaves it. The four handlers that need a backend
  for their operation (user listing, cache read, cache write, publish) answer an absent
  connection with 503 and leave the state as the accessor left it after the counter
  increment: the cache and the broker are untouched. The health check is not among them.
\<close>

theorem absent_connection_gives_503:
  "(psycopg2_connect e \<noteq> None \<longrightarrow> fst (get_db_connection e w) = None)
   \<and> (redis_init e \<noteq> None \<or> redis_ping e \<noteq> None \<longrightarrow> fst (get_redis_connection e w) = None)
   \<and> (pika_connect e \<noteq> None \<longrightarrow> fst (get_rabbitmq_connection e w) = None)
   \<and> (fst (get_db_connection e w) = None \<longrightarrow>
        get_users e w =
          (Inl (HTTPException 503 ''Database service unavailable''),
           snd (get_db_connection e (inc (''GET'', ''/database/users'') w))))
   \<and> (fst (get_redis_connection e w) = None \<longrightarrow>
        get_cache key e w =
          (Inl (HTTPException 503 ''Redis service unavailable''),
           snd (get_redis_connection e (inc (''GET'', ''/cache'') w)))
        \<and> set_cache key v e w =
          (Inl (HTTPException 503 ''Redis service unavailable''),
           snd (get_redis_connection e (inc (''POST'', ''/cache'') w)))
        \<and> redis_db (snd (set_cache key v e w)) = redis_db w)
   \<and> (fst (get_rabbitmq_connection e w) = None \<longrightarrow>
        send_message req e w =
          (Inl (HTTPException 503 ''RabbitMQ service unavailable''),
           snd (get_rabbitmq_connection e (inc (''POST'', ''/messages'') w)))
        \<and> broker (snd (send_message req e w)) = broker w)"
  by (simp add: get_db_connection_absent get_redis_connection_absent
      get_rabbitmq_connection_absent get_users_unavailable get_cache_unavailable
      set_cache_unavailable send_message_unavailable accessor_frames inc_def)

text \<open>With every backend refusing connections, the four handlers answer 503.\<close>

theorem absent_connection_gives_503_witness:
  "psycopg2_connect env_down \<noteq> None \<and> redis_ping env_down \<noteq> None
   \<and> pika_connect env_down \<noteq> None
   \<and> fst (get_db_connection env_down world0) = None
   \<and> fst (get_redis_connection env_down world0) = None
   \<and> fst (get_rabbitmq_connection env_down world0) = None
   \<and> status_code (fst (get_users env_down world0)) = 503
   \<and> status_code (fst (get_cache ''foo'' env_down world0)) = 503
   \<and> status_code (fst (set_cache ''foo'' ''bar'' env_down world0)) = 503
   \<and> status_code (fst (send_message hello env_down world0)) = 503"
proof -
  have d: "psycopg2_connect env_down \<noteq> None" and r: "redis_ping env_down \<noteq> None"
    and p: "pika_connect env_down \<noteq> None"
    by (simp_all add: env_down_def)
  show ?thesis
    using d r p
      absent_connection_gives_503 [where e = env_down and w = world0 and key = "''foo''"
        and v = "''bar''" and req = hello]
    by simp
qed

text \<open>
  C9, as stated, fails for the health check: it calls the three accessors, and with all
  three returning no connection it answers 200.
\<close>

theorem health_check_absent_not_503:
  "fst (get_db_connection env_down world0) = None
   \<and> fst (get_redis_connection env_down world0) = None
   \<and> fst (get_rabbitmq_connection env_down world0) = None
   \<and> status_code (fst (health_check env_down world0)) = 200"
  by (simp add: get_db_connection_absent get_redis_connection_absent
      get_rabbitmq_connection_absent health_check_def Let_def case_prod_beta env_down_def)

end
